theory Spec2Isabelle
  imports Main "HOL-Library.Word" "HOL-Library.Signed_Division" "HOL-Library.Monad_Syntax"
begin

section \<open>OTPToken_Old: the token base class\<close>

text \<open>
  The class keeps its state in the members \<open>_type\<close>, \<open>_typeName\<close>, \<open>_label\<close>, \<open>_icon\<close>,
  \<open>_secret\<close>, \<open>_digits\<close>, \<open>_period\<close>, \<open>_counter\<close> and \<open>_algorithm\<close> (see the copy
  constructor). An identifier cannot start with an underscore here, so every member
  \<open>_x\<close> is the record field \<open>m_x\<close>. The header that declares the member types is not
  among the sources; the integer members are unsigned (they are assigned \<open>0U\<close> and
  compared with \<open>0U\<close>), \<open>_period\<close> and \<open>_counter\<close> are taken as 32-bit
  (\<open>max_counter = 0x7FFFFFFF\<close>, and \<open>remainingTokenValidity\<close> returns
  \<open>std::uint32_t\<close>) and \<open>_digits\<close> as 8-bit.
\<close>

datatype TokenType = TypeNone | TOTP | HOTP | Steam | Authy

datatype ShaAlgorithm = Invalid | SHA1 | SHA256 | SHA512

record OTPToken_Old =
  m_type :: TokenType
  m_typeName :: string
  m_label :: string
  m_icon :: string
  m_secret :: string
  m_digits :: "8 word"
  m_period :: "32 word"
  m_counter :: "32 word"
  m_algorithm :: ShaAlgorithm

definition min_digits :: "8 word" where "min_digits = 3"
definition max_digits :: "8 word" where "max_digits = 10"
definition min_period :: "32 word" where "min_period = 1"
definition max_period :: "32 word" where "max_period = 120"
definition min_counter :: "32 word" where "min_counter = 0"
definition max_counter :: "32 word" where "max_counter = 0x7FFFFFFF"

subsection \<open>setAlgorithm\<close>

text \<open>
  \<open>std::toupper\<close> applied to an \<open>unsigned char\<close> in the "C" locale: the bytes
  \<open>a\<close>..\<open>z\<close> (97..122) move down by 32, every other byte is unchanged.
\<close>

definition toupper :: "char \<Rightarrow> char" where
  "toupper c =
     (let n = (of_char c :: nat)
      in if 97 \<le> n \<and> n \<le> 122 then char_of (n - 32) else c)"

text \<open>
  Modelled from the spec: the overload \<open>setAlgorithm(const ShaAlgorithm &)\<close> is defined
  in the header, which is not among the sources; it stores its argument in
  \<open>_algorithm\<close> ("invalid algorithm strings map to a sentinel Invalid value").
\<close>

definition setAlgorithm_enum :: "ShaAlgorithm \<Rightarrow> OTPToken_Old \<Rightarrow> OTPToken_Old" where
  "setAlgorithm_enum a t = t\<lparr>m_algorithm := a\<rparr>"

text \<open>\<open>OTPToken_Old::setAlgorithm(const std::string &)\<close>.\<close>

definition setAlgorithm :: "string \<Rightarrow> OTPToken_Old \<Rightarrow> OTPToken_Old" where
  "setAlgorithm algo0 t =
     (let algo = map toupper algo0;
          tmp = (if algo = ''SHA1'' then SHA1
                 else if algo = ''SHA256'' then SHA256
                 else if algo = ''SHA512'' then SHA512
                 else Invalid)
      in setAlgorithm_enum tmp t)"

text \<open>\<open>OTPToken_Old::algorithmString\<close>.\<close>

definition algorithmString :: "OTPToken_Old \<Rightarrow> string" where
  "algorithmString t =
     (case m_algorithm t of
        SHA1 \<Rightarrow> ''SHA1''
      | SHA256 \<Rightarrow> ''SHA256''
      | SHA512 \<Rightarrow> ''SHA512''
      | Invalid \<Rightarrow> ''(invalid)'')"

text \<open>
  The spec's wording for the string match: two strings match case-insensitively when
  they have the same length and, position by position, the characters are equal or are
  the two cases of one ASCII letter.
\<close>

definition is_upper_ascii :: "char \<Rightarrow> bool" where
  "is_upper_ascii c = (65 \<le> (of_char c :: nat) \<and> (of_char c :: nat) \<le> 90)"

definition spec_same_letter :: "char \<Rightarrow> char \<Rightarrow> bool" where
  "spec_same_letter a b =
     (a = b
      \<or> (is_upper_ascii a \<and> (of_char b :: nat) = of_char a + 32)
      \<or> (is_upper_ascii b \<and> (of_char a :: nat) = of_char b + 32))"

definition spec_matches_ci :: "string \<Rightarrow> string \<Rightarrow> bool" where
  "spec_matches_ci s t = list_all2 spec_same_letter s t"

subsection \<open>valid\<close>

definition valid :: "OTPToken_Old \<Rightarrow> bool" where
  "valid t = (\<not> (m_label t = [] \<and> m_secret t = []))"

subsection \<open>remainingTokenValidity\<close>

text \<open>
  The function reads the clock through \<open>std::time\<close> and \<open>std::localtime\<close> and uses
  only the field \<open>tm_sec\<close> of the result, the seconds of the current minute (0..60 in
  C). That field is the second argument here. \<open>static_cast<int>(_period)\<close> is
  \<open>sint\<close>, \<open>%\<close> on \<open>int\<close> truncates towards zero (\<open>smod\<close>) and the result is cast to
  \<open>std::uint32_t\<close>.
\<close>

definition remainingTokenValidity :: "OTPToken_Old \<Rightarrow> int \<Rightarrow> 32 word" where
  "remainingTokenValidity t tm_sec =
     (if m_period t = 0 then 0
      else
        let sec_expired = tm_sec;
            token_validity = sint (m_period t) - sec_expired
        in word_of_int
             (if token_validity < 0
              then (sint (m_period t) - (sec_expired smod sint (m_period t))) + 1
              else token_validity + 1))"

text \<open>
  \<open>tm_sec\<close> of the local time at Unix time \<open>now\<close>, for a time zone whose offset from
  UTC is a whole number of minutes and away from a leap second.
\<close>

definition tm_sec_at :: "int \<Rightarrow> int" where
  "tm_sec_at now = now mod 60"

text \<open>The spec's wording: the seconds until the current period boundary.\<close>

definition spec_seconds_to_boundary :: "int \<Rightarrow> int \<Rightarrow> int" where
  "spec_seconds_to_boundary period now = period - (now mod period)"

section \<open>andOTP: the encryption envelope\<close>

text \<open>
  A \<open>std::string\<close> is a list of bytes (\<open>char\<close> is eight bits wide). The Crypto++
  primitives are not part of the sources and are parameters of the model:
  \<^item> \<open>SHA256_digest\<close> is what the \<open>StringSource\<close>/\<open>HashFilter\<close>/\<open>StringSink\<close> pipeline
    over \<open>CryptoPP::SHA256\<close> leaves in the sink;
  \<^item> \<open>gcm_decrypt key iv enc_buf\<close> stands for \<open>SetKeyWithIV\<close> followed by the
    \<open>AuthenticatedDecryptionFilter\<close> pipeline of \<open>decrypt\<close> (flag \<open>MAC_AT_END\<close>,
    tag of \<open>ANDOTP_TAG_SIZE\<close> bytes): \<open>None\<close> when any of it throws, \<open>Some out\<close> when
    it completes, \<open>out\<close> being the bytes it appended to the sink. The parameter
    does not fix which inputs make the filter throw; the filter as \<open>decrypt\<close>
    constructs it is given below;
  \<^item> \<open>gcm_encrypt key iv buffer\<close> stands for \<open>SetKeyWithIV\<close> followed by the
    \<open>AuthenticatedEncryptionFilter\<close> pipeline of \<open>encrypt\<close>, in the same way;
  \<^item> the block of \<open>ANDOTP_IV_SIZE\<close> bytes that \<open>AutoSeededRandomPool::GenerateBlock\<close>
    writes is the argument \<open>iv\<close> of \<open>encrypt\<close>.
  A function with an output parameter takes the content the caller passes in and
  returns its \<open>bool\<close> together with the final content of that parameter. The
  \<open>StringSink\<close> of \<open>decrypt\<close> appends to \<open>decrypted\<close>; \<open>encrypt\<close> clears
  \<open>encrypted\<close> before it appends the IV and the ciphertext.
\<close>

definition ANDOTP_IV_SIZE :: nat where
  "ANDOTP_IV_SIZE = 12"

definition ANDOTP_TAG_SIZE :: nat where
  "ANDOTP_TAG_SIZE = 16"

definition sha256_password :: "(string \<Rightarrow> string) \<Rightarrow> string \<Rightarrow> string" where
  "sha256_password SHA256_digest password =
     (if password = [] then password else SHA256_digest password)"

definition decrypt ::
  "(string \<Rightarrow> string) \<Rightarrow> (string \<Rightarrow> string \<Rightarrow> string \<Rightarrow> string option)
     \<Rightarrow> string \<Rightarrow> string \<Rightarrow> string \<Rightarrow> bool \<times> string" where
  "decrypt SHA256_digest gcm_decrypt password buffer decrypted =
     (if length buffer \<le> ANDOTP_IV_SIZE + ANDOTP_TAG_SIZE then (False, decrypted)
      else
        let iv = take ANDOTP_IV_SIZE buffer;
            enc_buf = drop ANDOTP_IV_SIZE buffer;
            pwd = sha256_password SHA256_digest password
        in case gcm_decrypt pwd iv enc_buf of
             None \<Rightarrow> (False, [])
           | Some out \<Rightarrow> (True, decrypted @ out))"

definition encrypt ::
  "(string \<Rightarrow> string) \<Rightarrow> (string \<Rightarrow> string \<Rightarrow> string \<Rightarrow> string option)
     \<Rightarrow> string \<Rightarrow> string \<Rightarrow> string \<Rightarrow> string \<Rightarrow> bool \<times> string" where
  "encrypt SHA256_digest gcm_encrypt iv password buffer encrypted =
     (if buffer = [] then (False, encrypted)
      else
        let pwd = sha256_password SHA256_digest password
        in case gcm_encrypt pwd iv buffer of
             None \<Rightarrow> (False, [])
           | Some enc_buf \<Rightarrow> (True, iv @ enc_buf))"

subsection \<open>The decryption filter as \<open>decrypt\<close> constructs it\<close>

text \<open>
  \<open>decrypt\<close> constructs its \<open>AuthenticatedDecryptionFilter\<close> with the flags argument
  \<open>MAC_AT_END\<close> and never asks it for the outcome of the verification
  (\<open>GetLastResult\<close>); the only way a tag mismatch can reach \<open>decrypt\<close> is an exception.
  The flags are declared in Crypto++'s \<open>filters.h\<close>, which is not among the sources.
  There they are bits of a \<open>word32\<close>: \<open>MAC_AT_END = 0\<close>, \<open>MAC_AT_BEGIN = 1\<close>,
  \<open>THROW_EXCEPTION = 16\<close> and \<open>DEFAULT_FLAGS = THROW_EXCEPTION\<close>. The filter passes the
  bytes it deciphers on to the sink and compares the tag at the end of the message; on
  a mismatch it throws \<open>HashVerificationFailed\<close> when \<open>flags & THROW_EXCEPTION\<close> is
  set, and otherwise only records the outcome.

  \<open>gcm key iv enc_buf\<close> is the cipher underneath: \<open>None\<close> when \<open>SetKeyWithIV\<close> or the
  cipher throws, \<open>Some (out, verified)\<close> when it deciphers \<open>out\<close> and the tag compares
  equal (\<open>verified\<close>) or not.
\<close>

unbundle bit_operations_syntax

definition MAC_AT_END :: "32 word" where
  "MAC_AT_END = 0"

definition MAC_AT_BEGIN :: "32 word" where
  "MAC_AT_BEGIN = 1"

definition THROW_EXCEPTION :: "32 word" where
  "THROW_EXCEPTION = 16"

definition DEFAULT_FLAGS :: "32 word" where
  "DEFAULT_FLAGS = THROW_EXCEPTION"

definition AuthenticatedDecryptionFilter ::
  "32 word \<Rightarrow> (string \<Rightarrow> string \<Rightarrow> string \<Rightarrow> (string \<times> bool) option)
     \<Rightarrow> string \<Rightarrow> string \<Rightarrow> string \<Rightarrow> string option" where
  "AuthenticatedDecryptionFilter flags gcm key iv enc_buf =
     (case gcm key iv enc_buf of
        None \<Rightarrow> None
      | Some (out, verified) \<Rightarrow>
          if flags AND THROW_EXCEPTION \<noteq> 0 \<and> \<not> verified then None else Some out)"

section \<open>andOTP: the JSON document\<close>

text \<open>
  The document model of rapidjson, as far as the adapter uses it. A number is an
  integer (\<open>JInt\<close>) or not (\<open>JDouble m e\<close>, the decimal \<open>m\<close> times ten to the \<open>e\<close>); an
  object keeps its members in insertion order and may repeat a name, lookups find the
  first. The accessors check the type of the value with \<open>RAPIDJSON_ASSERT\<close>; the
  adapter is written for the configuration in which a failed assertion throws
  ("catch all rapidjson exceptions"), so an accessor returns \<open>None\<close> where it throws.
\<close>

datatype json =
    JNull
  | JBool bool
  | JInt int
  | JDouble int int
  | JString string
  | JArray "json list"
  | JObject "(string \<times> json) list"

definition IsArray :: "json \<Rightarrow> bool" where
  "IsArray v = (case v of JArray _ \<Rightarrow> True | _ \<Rightarrow> False)"

definition GetArray :: "json \<Rightarrow> json list" where
  "GetArray v = (case v of JArray xs \<Rightarrow> xs | _ \<Rightarrow> [])"

definition HasMember :: "json \<Rightarrow> string \<Rightarrow> bool option" where
  "HasMember v name = (case v of JObject ms \<Rightarrow> Some (map_of ms name \<noteq> None) | _ \<Rightarrow> None)"

text \<open>\<open>operator[]\<close> with a member name.\<close>

definition member_at :: "json \<Rightarrow> string \<Rightarrow> json option" where
  "member_at v name = (case v of JObject ms \<Rightarrow> map_of ms name | _ \<Rightarrow> None)"

definition GetString :: "json \<Rightarrow> string option" where
  "GetString v = (case v of JString s \<Rightarrow> Some s | _ \<Rightarrow> None)"

definition GetUint :: "json \<Rightarrow> 32 word option" where
  "GetUint v =
     (case v of
        JInt n \<Rightarrow> if 0 \<le> n \<and> n < 2 ^ 32 then Some (word_of_int n) else None
      | _ \<Rightarrow> None)"

text \<open>
  A \<open>const char *\<close> that becomes a \<open>std::string\<close> (or is measured by \<open>strlen\<close>) ends
  at its first NUL byte.
\<close>

definition c_str :: "string \<Rightarrow> string" where
  "c_str s = takeWhile (\<lambda>c. c \<noteq> CHR 0x00) s"

section \<open>andOTP: import\<close>

text \<open>
  The class \<open>OTPToken\<close> is not among the sources. \<open>importTokens\<close> only constructs a
  token for a variant and calls setters on it, so the token it pushes is recorded as
  that variant with the setter calls in the order they are made.
  \<open>OTPToken::DigitType\<close>, the target of the \<open>static_cast\<close>, is taken as 8 bits wide.
\<close>

datatype setter_call =
    SetSecret string
  | SetLabel string
  | SetPeriod "32 word"
  | SetDigitLength "8 word"
  | SetCounter "32 word"
  | SetAlgorithm string

datatype new_OTPToken = New_OTPToken (new_type: TokenType) (calls: "setter_call list")

text \<open>
  The condition of the first \<open>if\<close> in the loop, with the short-circuit of \<open>&&\<close>; it
  is evaluated outside the inner \<open>try\<close>.
\<close>

definition has_andOTP_members :: "json \<Rightarrow> bool option" where
  "has_andOTP_members elem =
     do {
       t \<leftarrow> HasMember elem ''type'';
       if \<not> t then Some False
       else do {
         s \<leftarrow> HasMember elem ''secret'';
         if \<not> s then Some False else HasMember elem ''label''
       }
     }"

definition get_string_at :: "json \<Rightarrow> string \<Rightarrow> string option" where
  "get_string_at elem name = do { v \<leftarrow> member_at elem name; s \<leftarrow> GetString v; Some (c_str s) }"

definition get_uint_at :: "json \<Rightarrow> string \<Rightarrow> 32 word option" where
  "get_uint_at elem name = do { v \<leftarrow> member_at elem name; GetUint v }"

text \<open>
  The body of the inner \<open>try\<close>: \<open>None\<close> when it throws, \<open>Some None\<close> when it reaches
  the final \<open>else\<close>, \<open>Some (Some token)\<close> when it reaches a \<open>push_back\<close>.
\<close>

definition read_token :: "json \<Rightarrow> new_OTPToken option option" where
  "read_token elem =
     do {
       typeStr \<leftarrow> get_string_at elem ''type'';
       if typeStr = ''TOTP'' then
         do {
           sec \<leftarrow> get_string_at elem ''secret'';
           lab \<leftarrow> get_string_at elem ''label'';
           per \<leftarrow> get_uint_at elem ''period'';
           dig \<leftarrow> get_uint_at elem ''digits'';
           alg \<leftarrow> get_string_at elem ''algorithm'';
           Some (Some (New_OTPToken TOTP
             [SetSecret sec, SetLabel lab, SetPeriod per, SetDigitLength (ucast dig),
              SetAlgorithm alg]))
         }
       else if typeStr = ''HOTP'' then
         do {
           sec \<leftarrow> get_string_at elem ''secret'';
           lab \<leftarrow> get_string_at elem ''label'';
           cnt \<leftarrow> get_uint_at elem ''counter'';
           dig \<leftarrow> get_uint_at elem ''digits'';
           alg \<leftarrow> get_string_at elem ''algorithm'';
           Some (Some (New_OTPToken HOTP
             [SetSecret sec, SetLabel lab, SetCounter cnt, SetDigitLength (ucast dig),
              SetAlgorithm alg]))
         }
       else if typeStr = ''STEAM'' then
         do {
           sec \<leftarrow> get_string_at elem ''secret'';
           lab \<leftarrow> get_string_at elem ''label'';
           Some (Some (New_OTPToken Steam [SetSecret sec, SetLabel lab]))
         }
       else Some None
     }"

text \<open>One iteration of the loop over the array.\<close>

datatype iteration = Pushed new_OTPToken | Skipped | Thrown

definition import_elem :: "json \<Rightarrow> iteration" where
  "import_elem elem =
     (case has_andOTP_members elem of
        None \<Rightarrow> Thrown
      | Some False \<Rightarrow> Skipped
      | Some True \<Rightarrow>
          (case read_token elem of
             None \<Rightarrow> Skipped
           | Some None \<Rightarrow> Skipped
           | Some (Some token) \<Rightarrow> Pushed token))"

text \<open>
  The loop: an exception that leaves an iteration reaches the outer \<open>catch\<close>, which
  returns \<open>false\<close>; the tokens pushed so far stay in \<open>target\<close>.
\<close>

fun import_loop :: "json list \<Rightarrow> new_OTPToken list \<Rightarrow> bool \<times> new_OTPToken list" where
  "import_loop [] target = (True, target)"
| "import_loop (elem # rest) target =
     (case import_elem elem of
        Thrown \<Rightarrow> (False, target)
      | Skipped \<Rightarrow> import_loop rest target
      | Pushed token \<Rightarrow> import_loop rest (target @ [token]))"

text \<open>\<open>importTokens\<close> from the parsed document on.\<close>

definition importTokens_json :: "json \<Rightarrow> new_OTPToken list \<Rightarrow> bool \<times> new_OTPToken list" where
  "importTokens_json doc target =
     (if \<not> IsArray doc then (False, target) else import_loop (GetArray doc) target)"

datatype andOTP_Type = PlainText | Encrypted

text \<open>
  \<open>importTokens\<close>. \<open>readFile\<close> stands for \<open>TokenDatabase::readFile\<close> (\<open>None\<close> for a
  status other than \<open>Success\<close>) and \<open>ParseStream\<close> for the rapidjson parser, which
  reads the buffer as a C string and leaves a null document on a parse error.
\<close>

definition importTokens ::
  "(string \<Rightarrow> string option) \<Rightarrow> (string \<Rightarrow> json) \<Rightarrow> (string \<Rightarrow> string)
     \<Rightarrow> (string \<Rightarrow> string \<Rightarrow> string \<Rightarrow> string option)
     \<Rightarrow> string \<Rightarrow> new_OTPToken list \<Rightarrow> andOTP_Type \<Rightarrow> string
     \<Rightarrow> bool \<times> new_OTPToken list" where
  "importTokens readFile ParseStream SHA256_digest gcm_decrypt file target type' password =
     (case readFile file of
        None \<Rightarrow> (False, target)
      | Some out \<Rightarrow>
          if out = [] then (False, target)
          else
            (case (if type' = Encrypted
                   then (case decrypt SHA256_digest gcm_decrypt password out [] of
                           (True, decrypted) \<Rightarrow> Some decrypted
                         | (False, _) \<Rightarrow> None)
                   else Some out) of
               None \<Rightarrow> (False, target)
             | Some out' \<Rightarrow> importTokens_json (ParseStream (c_str out')) target))"

section \<open>andOTP: export\<close>

text \<open>
  \<open>exportTokens\<close> reads a token through its getters only; a token is the record of
  what they return. \<open>period()\<close> is taken as 32 bits wide and \<open>digitLength()\<close> as 8.
\<close>

record OTPToken =
  secret :: string
  label :: string
  period :: "32 word"
  digitLength :: "8 word"
  type :: TokenType
  algorithmName :: string

text \<open>
  \<open>value[name].SetUint(n)\<close>: the first member of that name takes the new value; the
  lookup throws when there is none.
\<close>

fun SetUint_at :: "string \<Rightarrow> int \<Rightarrow> (string \<times> json) list \<Rightarrow> (string \<times> json) list option" where
  "SetUint_at name n [] = None"
| "SetUint_at name n ((k, v) # ms) =
     (if k = name then Some ((k, JInt n) # ms)
      else map_option (\<lambda>ms'. (k, v) # ms') (SetUint_at name n ms))"

text \<open>The body of the loop: the object pushed for one token.\<close>

definition export_value :: "OTPToken \<Rightarrow> json option" where
  "export_value token =
     (let v0 = [(''secret'', JString (c_str (secret token))),
                (''label'', JString (c_str (label token))),
                (''period'', JInt (uint (period token))),
                (''digits'', JInt (uint (digitLength token)))];
          v1 = v0 @ [(''type'', JString
                 (if type token = HOTP then ''HOTP''
                  else if type token = Steam then ''STEAM''
                  else ''TOTP''))];
          v2 = (if type token = Steam
                then SetUint_at ''digits'' 5 (v1 @ [(''algorithm'', JString ''SHA1'')])
                else Some (v1 @ [(''algorithm'', JString (c_str (algorithmName token)))]))
      in map_option
           (\<lambda>ms. JObject (ms @ [(''thumbnail'', JString ''Default''),
                                (''last_used'', JInt 0),
                                (''tags'', JArray [])]))
           v2)"

fun export_loop :: "OTPToken list \<Rightarrow> json list option" where
  "export_loop [] = Some []"
| "export_loop (token # rest) =
     do { v \<leftarrow> export_value token; vs \<leftarrow> export_loop rest; Some (v # vs) }"

text \<open>
  \<open>exportTokens\<close>. \<open>Accept\<close> stands for the rapidjson writer (document to text) and
  \<open>writeFile\<close> for \<open>TokenDatabase::writeFile\<close> (\<open>True\<close> for \<open>Success\<close>). The result is
  the status and the buffer handed to \<open>writeFile\<close>, if it is reached. The parameter
  \<open>type\<close> of \<open>importTokens\<close> and \<open>exportTokens\<close> is written \<open>type'\<close>.
\<close>

definition exportTokens ::
  "(json \<Rightarrow> string) \<Rightarrow> (string \<Rightarrow> string \<Rightarrow> bool) \<Rightarrow> (string \<Rightarrow> string)
     \<Rightarrow> (string \<Rightarrow> string \<Rightarrow> string \<Rightarrow> string option) \<Rightarrow> string
     \<Rightarrow> string \<Rightarrow> OTPToken list \<Rightarrow> andOTP_Type \<Rightarrow> string
     \<Rightarrow> bool \<times> string option" where
  "exportTokens Accept writeFile SHA256_digest gcm_encrypt iv target tokens type' password =
     (case export_loop tokens of
        None \<Rightarrow> (False, None)
      | Some elems \<Rightarrow>
          let buffer = c_str (Accept (JArray elems)) in
          if type' = PlainText then (writeFile target buffer, Some buffer)
          else
            (case encrypt SHA256_digest gcm_encrypt iv password buffer [] of
               (False, _) \<Rightarrow> (False, None)
             | (True, encrypted) \<Rightarrow> (writeFile target encrypted, Some encrypted)))"

section \<open>The properties in the spec's words\<close>

definition is_object :: "json \<Rightarrow> bool" where
  "is_object v = (case v of JObject _ \<Rightarrow> True | _ \<Rightarrow> False)"

text \<open>
  The condition the spec puts on an element that becomes a token: the members \<open>type\<close>,
  \<open>secret\<close> and \<open>label\<close> are there and the \<open>type\<close> string, as the C string the code
  compares, is one of the three names.
\<close>

definition spec_recognised :: "json \<Rightarrow> bool" where
  "spec_recognised elem =
     (HasMember elem ''type'' = Some True
      \<and> HasMember elem ''secret'' = Some True
      \<and> HasMember elem ''label'' = Some True
      \<and> (case get_string_at elem ''type'' of
            Some typeStr \<Rightarrow> typeStr = ''TOTP'' \<or> typeStr = ''HOTP'' \<or> typeStr = ''STEAM''
          | None \<Rightarrow> False))"

text \<open>What one element adds to \<open>target\<close>.\<close>

definition pushed_by :: "json \<Rightarrow> new_OTPToken list" where
  "pushed_by elem = (case import_elem elem of Pushed token \<Rightarrow> [token] | _ \<Rightarrow> [])"

text \<open>The object \<open>exportTokens\<close> is said to write for a Steam token.\<close>

definition spec_steam_object :: "OTPToken \<Rightarrow> json" where
  "spec_steam_object token =
     JObject [(''secret'', JString (c_str (secret token))),
              (''label'', JString (c_str (label token))),
              (''period'', JInt (uint (period token))),
              (''digits'', JInt 5),
              (''type'', JString ''STEAM''),
              (''algorithm'', JString ''SHA1''),
              (''thumbnail'', JString ''Default''),
              (''last_used'', JInt 0),
              (''tags'', JArray [])]"

text \<open>
  What \<open>importTokens\<close> constructs from the object that \<open>exportTokens\<close> writes for a
  token that is not HOTP.
\<close>

definition read_back :: "OTPToken \<Rightarrow> new_OTPToken" where
  "read_back token =
     (if type token = Steam
      then New_OTPToken Steam
             [SetSecret (c_str (secret token)), SetLabel (c_str (label token))]
      else New_OTPToken TOTP
             [SetSecret (c_str (secret token)), SetLabel (c_str (label token)),
              SetPeriod (period token), SetDigitLength (digitLength token),
              SetAlgorithm (c_str (algorithmName token))])"

section \<open>Example values\<close>

text \<open>
  Concrete inputs for the worked instances below. The library parameters are
  instantiated with stand-ins of the right shape: a digest with 32-byte results, and a
  cipher that refuses a key that is not 32 bytes long, appends a fixed 16-byte tag and
  refuses a buffer that does not end in that tag.
\<close>

definition example_token :: "32 word \<Rightarrow> OTPToken_Old" where
  "example_token p =
     \<lparr>m_type = TOTP, m_typeName = ''TOTP'', m_label = ''mail'', m_icon = [],
      m_secret = ''JBSWY3DP'', m_digits = 6, m_period = p, m_counter = 0,
      m_algorithm = SHA1\<rparr>"

definition example_digest :: "string \<Rightarrow> string" where
  "example_digest password = replicate 32 (CHR ''k'')"

definition example_tag :: string where
  "example_tag = replicate 16 (CHR ''t'')"

definition example_gcm_encrypt :: "string \<Rightarrow> string \<Rightarrow> string \<Rightarrow> string option" where
  "example_gcm_encrypt key iv buffer =
     (if length key = 32 then Some (buffer @ example_tag) else None)"

definition example_gcm_decrypt :: "string \<Rightarrow> string \<Rightarrow> string \<Rightarrow> string option" where
  "example_gcm_decrypt key iv enc_buf =
     (if length key = 32 \<and> 16 \<le> length enc_buf
         \<and> drop (length enc_buf - 16) enc_buf = example_tag
      then Some (take (length enc_buf - 16) enc_buf) else None)"

definition example_iv :: string where
  "example_iv = ''0123456789ab''"

definition totp_ok :: json where
  "totp_ok =
     JObject [(''secret'', JString ''JBSWY3DP''), (''label'', JString ''mail''),
              (''period'', JInt 30), (''digits'', JInt 6), (''type'', JString ''TOTP''),
              (''algorithm'', JString ''SHA1'')]"

definition totp_ok_token :: new_OTPToken where
  "totp_ok_token =
     New_OTPToken TOTP
       [SetSecret ''JBSWY3DP'', SetLabel ''mail'', SetPeriod 30, SetDigitLength 6,
        SetAlgorithm ''SHA1'']"

definition no_secret :: json where
  "no_secret =
     JObject [(''label'', JString ''mail''), (''period'', JInt 30), (''digits'', JInt 6),
              (''type'', JString ''TOTP''), (''algorithm'', JString ''SHA1'')]"

definition numeric_type :: json where
  "numeric_type =
     JObject [(''secret'', JString ''JBSWY3DP''), (''label'', JString ''mail''),
              (''period'', JInt 30), (''digits'', JInt 6), (''type'', JInt 5),
              (''algorithm'', JString ''SHA1'')]"

text \<open>
  A digest stand-in that tells passwords apart, and a cipher stand-in whose tag is the
  first 16 bytes of the key.
\<close>

definition example_keyed_digest :: "string \<Rightarrow> string" where
  "example_keyed_digest password = take 32 (password @ replicate 32 (CHR ''k''))"

definition example_keyed_encrypt :: "string \<Rightarrow> string \<Rightarrow> string \<Rightarrow> string option" where
  "example_keyed_encrypt key iv buffer =
     (if length key = 32 then Some (buffer @ take 16 key) else None)"

definition example_gcm :: "string \<Rightarrow> string \<Rightarrow> string \<Rightarrow> (string \<times> bool) option" where
  "example_gcm key iv enc_buf =
     (if length key = 32 \<and> 16 \<le> length enc_buf
      then Some (take (length enc_buf - 16) enc_buf,
                 drop (length enc_buf - 16) enc_buf = take 16 key)
      else None)"

definition example_steam :: OTPToken where
  "example_steam =
     \<lparr>secret = ''STEAMSECRET'', label = ''steam'', period = 30, digitLength = 8,
      type = Steam, algorithmName = ''SHA512''\<rparr>"

definition example_hotp :: OTPToken where
  "example_hotp =
     \<lparr>secret = ''HOTPSECRET'', label = ''vpn'', period = 30, digitLength = 6,
      type = HOTP, algorithmName = ''SHA1''\<rparr>"

definition example_authy :: OTPToken where
  "example_authy =
     \<lparr>secret = ''AUTHYSECRET'', label = ''authy'', period = 10, digitLength = 7,
      type = Authy, algorithmName = ''SHA256''\<rparr>"

section \<open>Token base class: proofs\<close>

subsection \<open>Upper-casing and the case-insensitive match\<close>

lemma toupper_nat:
  "(of_char (toupper c) :: nat) =
     (if 97 \<le> (of_char c :: nat) \<and> (of_char c :: nat) \<le> 122 then of_char c - 32 else of_char c)"
proof -
  have "(of_char c :: nat) < 256" by simp
  then have "((of_char c :: nat) - 32) mod 256 = of_char c - 32"
    by (intro mod_less) arith
  then show ?thesis by (simp add: toupper_def Let_def)
qed

lemma upper_nat_eq_iff:
  fixes n m :: nat
  shows "((if 97 \<le> n \<and> n \<le> 122 then n - 32 else n) = (if 97 \<le> m \<and> m \<le> 122 then m - 32 else m))
     = (n = m \<or> (65 \<le> n \<and> n \<le> 90 \<and> m = n + 32) \<or> (65 \<le> m \<and> m \<le> 90 \<and> n = m + 32))"
  by (simp split: if_splits) arith

lemma toupper_eq_iff: "toupper a = toupper b \<longleftrightarrow> spec_same_letter a b"
proof -
  have "(toupper a = toupper b) = ((of_char (toupper a) :: nat) = of_char (toupper b))"
    by simp
  also have "\<dots> = ((of_char a :: nat) = of_char b
      \<or> (65 \<le> (of_char a :: nat) \<and> (of_char a :: nat) \<le> 90 \<and> (of_char b :: nat) = of_char a + 32)
      \<or> (65 \<le> (of_char b :: nat) \<and> (of_char b :: nat) \<le> 90 \<and> (of_char a :: nat) = of_char b + 32))"
    unfolding toupper_nat by (rule upper_nat_eq_iff)
  also have "\<dots> = spec_same_letter a b"
    by (simp add: spec_same_letter_def is_upper_ascii_def)
  finally show ?thesis .
qed

lemma toupper_map_eq_iff: "map toupper s = map toupper t \<longleftrightarrow> spec_matches_ci s t"
proof -
  have "list_all2 (=) (map toupper s) (map toupper t)
          = list_all2 (\<lambda>a b. toupper a = toupper b) s t"
    by (simp add: list.rel_map)
  then show ?thesis
    by (simp add: list.rel_eq spec_matches_ci_def toupper_eq_iff [abs_def])
qed

lemma toupper_names:
  "map toupper ''SHA1'' = ''SHA1''"
  "map toupper ''SHA256'' = ''SHA256''"
  "map toupper ''SHA512'' = ''SHA512''"
  by (simp_all add: toupper_def)

lemma upper_matches:
  "map toupper s = ''SHA1'' \<longleftrightarrow> spec_matches_ci s ''SHA1''"
  "map toupper s = ''SHA256'' \<longleftrightarrow> spec_matches_ci s ''SHA256''"
  "map toupper s = ''SHA512'' \<longleftrightarrow> spec_matches_ci s ''SHA512''"
  using toupper_map_eq_iff [of s "''SHA1''"] toupper_map_eq_iff [of s "''SHA256''"]
    toupper_map_eq_iff [of s "''SHA512''"]
  unfolding toupper_names by simp_all

lemma setAlgorithm_algorithm:
  "m_algorithm (setAlgorithm s t) =
     (if map toupper s = ''SHA1'' then SHA1
      else if map toupper s = ''SHA256'' then SHA256
      else if map toupper s = ''SHA512'' then SHA512
      else Invalid)"
  by (simp add: setAlgorithm_def setAlgorithm_enum_def Let_def)

text \<open>
  C6: for every string, \<open>setAlgorithm\<close> stores SHA1, SHA256 or SHA512 exactly when the
  string matches that name case-insensitively, and the sentinel \<open>Invalid\<close> exactly when
  it matches none of the three.
\<close>

theorem setAlgorithm_matches_case_insensitively:
  "(m_algorithm (setAlgorithm s t) = SHA1) = spec_matches_ci s ''SHA1''
   \<and> (m_algorithm (setAlgorithm s t) = SHA256) = spec_matches_ci s ''SHA256''
   \<and> (m_algorithm (setAlgorithm s t) = SHA512) = spec_matches_ci s ''SHA512''
   \<and> (m_algorithm (setAlgorithm s t) = Invalid)
       = (\<not> (spec_matches_ci s ''SHA1'' \<or> spec_matches_ci s ''SHA256''
              \<or> spec_matches_ci s ''SHA512''))"
proof -
  have "map toupper s = ''SHA1'' \<or> map toupper s = ''SHA256'' \<or> map toupper s = ''SHA512''
      \<or> (map toupper s \<noteq> ''SHA1'' \<and> map toupper s \<noteq> ''SHA256'' \<and> map toupper s \<noteq> ''SHA512'')"
    by blast
  then show ?thesis
    unfolding upper_matches [symmetric] setAlgorithm_algorithm
    by (elim disjE) simp_all
qed

lemma example_matches:
  "spec_matches_ci ''sHa256'' ''SHA256''"
  "\<not> spec_matches_ci ''md5'' ''SHA1''"
  "\<not> spec_matches_ci ''md5'' ''SHA256''"
  "\<not> spec_matches_ci ''md5'' ''SHA512''"
  by (simp_all add: spec_matches_ci_def spec_same_letter_def is_upper_ascii_def)

text \<open>C6 at the strings \<open>sHa256\<close> and \<open>md5\<close>.\<close>

theorem setAlgorithm_matches_case_insensitively_witness:
  "m_algorithm (setAlgorithm ''sHa256'' (example_token 30)) = SHA256
   \<and> spec_matches_ci ''sHa256'' ''SHA256''
   \<and> m_algorithm (setAlgorithm ''md5'' (example_token 30)) = Invalid
   \<and> \<not> spec_matches_ci ''md5'' ''SHA1''"
  using setAlgorithm_matches_case_insensitively [of "''sHa256''" "example_token 30"]
    setAlgorithm_matches_case_insensitively [of "''md5''" "example_token 30"]
    example_matches
  by simp

subsection \<open>valid\<close>

lemma setAlgorithm_keeps_valid: "valid (setAlgorithm s t) = valid t"
  by (simp add: valid_def setAlgorithm_def setAlgorithm_enum_def Let_def)

text \<open>
  C5, as the code has it: \<open>valid\<close> looks at the label and the secret only. Whatever the
  algorithm field holds, the sentinel \<open>Invalid\<close> included, and whatever string
  \<open>setAlgorithm\<close> is called with, \<open>valid\<close> is false exactly when the label and the
  secret are both empty.
\<close>

theorem valid_ignores_algorithm:
  "valid (t\<lparr>m_algorithm := Invalid\<rparr>) = (\<not> (m_label t = [] \<and> m_secret t = []))
   \<and> valid (t\<lparr>m_algorithm := a\<rparr>) = valid t
   \<and> valid (setAlgorithm s t) = valid t"
  by (simp add: valid_def setAlgorithm_def setAlgorithm_enum_def Let_def)

text \<open>C5 at a token with a label, a secret and the algorithm string \<open>md5\<close>.\<close>

theorem valid_ignores_algorithm_witness:
  "valid (setAlgorithm ''md5'' (example_token 30)) = valid (example_token 30)
   \<and> valid ((example_token 30)\<lparr>m_algorithm := Invalid\<rparr>)"
  using valid_ignores_algorithm [of "example_token 30" Invalid "''md5''"]
  by (simp add: example_token_def)

text \<open>
  C5 as stated fails: after \<open>setAlgorithm\<close> with the string \<open>md5\<close> the algorithm field
  holds \<open>Invalid\<close> and \<open>valid\<close> is true.
\<close>

theorem invalid_algorithm_token_is_valid:
  "m_algorithm (setAlgorithm ''md5'' (example_token 30)) = Invalid
   \<and> valid (setAlgorithm ''md5'' (example_token 30))"
proof -
  have "valid (example_token 30)"
    by (simp add: valid_def example_token_def)
  then have "valid (setAlgorithm ''md5'' (example_token 30))"
    by (simp only: setAlgorithm_keeps_valid)
  moreover have "m_algorithm (setAlgorithm ''md5'' (example_token 30)) = Invalid"
    by (simp add: setAlgorithm_algorithm upper_matches example_matches)
  ultimately show ?thesis by simp
qed

subsection \<open>remainingTokenValidity\<close>

lemma smod_nonneg: "0 \<le> a \<Longrightarrow> 0 < b \<Longrightarrow> (a::int) smod b = a mod b"
  by (simp add: smod_int_alt_def sgn_if)

lemma validity_from_tm_sec:
  assumes "1 \<le> uint (m_period t)" "uint (m_period t) \<le> 120" "0 \<le> s" "s \<le> 60"
    "s \<noteq> uint (m_period t)"
  shows "uint (remainingTokenValidity t s) = uint (m_period t) - (s mod uint (m_period t)) + 1"
proof -
  let ?p = "uint (m_period t)"
  have sp: "sint (m_period t) = ?p"
    using assms(1,2) by (simp add: sint_uint signed_take_bit_int_eq_self)
  have nz: "m_period t \<noteq> 0" using assms(1) by auto
  have pos: "0 < ?p" using assms(1) by linarith
  have m: "0 \<le> s mod ?p" "s mod ?p < ?p"
    using pos by (rule pos_mod_sign, rule pos_mod_bound)
  have bound: "0 \<le> ?p - (s mod ?p) + 1" "?p - (s mod ?p) + 1 < 2 ^ 32"
    using m assms(2) by simp_all
  have val: "remainingTokenValidity t s = word_of_int (?p - (s mod ?p) + 1)"
  proof (cases "s < ?p")
    case True
    then have "s mod ?p = s" using assms(3) by simp
    then show ?thesis using True nz
      by (simp add: remainingTokenValidity_def Let_def sp)
  next
    case False
    then have "?p < s" using assms(5) by simp
    then show ?thesis using nz assms(3) pos
      by (simp add: remainingTokenValidity_def Let_def sp smod_nonneg)
  qed
  have "uint (word_of_int (?p - (s mod ?p) + 1) :: 32 word) = (?p - (s mod ?p) + 1) mod 2 ^ 32"
    by (simp only: uint_word_of_int) simp
  also have "\<dots> = ?p - (s mod ?p) + 1"
    using bound by (intro mod_pos_pos_trivial) simp_all
  finally show ?thesis by (simp only: val)
qed

lemma tm_sec_at_range: "0 \<le> tm_sec_at now" "tm_sec_at now \<le> 60"
  by (simp_all add: tm_sec_at_def)

lemma tm_sec_at_mod: "p dvd 60 \<Longrightarrow> tm_sec_at now mod p = now mod p"
  by (simp add: tm_sec_at_def mod_mod_cancel)

text \<open>
  C4, as the code has it. With period \<open>p\<close> in 1..120 and the seconds field \<open>s\<close> of the
  local time in 0..60, \<open>s\<close> other than \<open>p\<close>, the function returns
  \<open>p - (s mod p) + 1\<close>: it counts from the seconds of the current minute, not from Unix
  time, and adds one. When \<open>p\<close> divides 60 this is one more than the seconds to the
  period boundary. With period 0 it returns 0.
\<close>

theorem remainingTokenValidity_value:
  "(m_period t = 0 \<longrightarrow> remainingTokenValidity t s = 0)
   \<and> (1 \<le> uint (m_period t) \<and> uint (m_period t) \<le> 120 \<and> 0 \<le> s \<and> s \<le> 60
        \<and> s \<noteq> uint (m_period t) \<longrightarrow>
      uint (remainingTokenValidity t s) = uint (m_period t) - (s mod uint (m_period t)) + 1)
   \<and> (1 \<le> uint (m_period t) \<and> uint (m_period t) \<le> 120 \<and> uint (m_period t) dvd 60
        \<and> tm_sec_at now \<noteq> uint (m_period t) \<longrightarrow>
      uint (remainingTokenValidity t (tm_sec_at now))
        = spec_seconds_to_boundary (uint (m_period t)) now + 1)"
proof -
  have "uint (remainingTokenValidity t (tm_sec_at now))
        = spec_seconds_to_boundary (uint (m_period t)) now + 1"
    if "1 \<le> uint (m_period t)" "uint (m_period t) \<le> 120" "uint (m_period t) dvd 60"
      "tm_sec_at now \<noteq> uint (m_period t)"
    using validity_from_tm_sec [OF that(1,2) tm_sec_at_range that(4)]
      tm_sec_at_mod [OF that(3), of now]
    by (simp add: spec_seconds_to_boundary_def)
  then show ?thesis
    using validity_from_tm_sec [of t s]
    by (auto simp add: remainingTokenValidity_def)
qed

text \<open>
  C4 at period 0, at period 30 with 45 seconds on the clock, and at period 30 and Unix
  time 1000000000 (40 seconds into the minute, 10 into the period).
\<close>

theorem remainingTokenValidity_value_witness:
  "m_period (example_token 0) = 0
   \<and> remainingTokenValidity (example_token 0) 45 = 0
   \<and> uint (remainingTokenValidity (example_token 30) 45) = 16
   \<and> uint (m_period (example_token 30)) dvd 60
   \<and> tm_sec_at 1000000000 = 40
   \<and> uint (remainingTokenValidity (example_token 30) (tm_sec_at 1000000000)) = 21
   \<and> spec_seconds_to_boundary 30 1000000000 = 20"
  using remainingTokenValidity_value [of "example_token 0" 45 0]
    remainingTokenValidity_value [of "example_token 30" 45 1000000000]
  by (simp add: example_token_def tm_sec_at_def spec_seconds_to_boundary_def)

text \<open>
  C4 as stated fails: the result is not \<open>period - (now mod period)\<close>. At period 30 and
  Unix time 0 it is 31, not 30; at period 30 and Unix time 30 it is 1, not 30; at
  period 120 and Unix time 70 it is 111, not 50; at period 7 and Unix time 8 it is 7,
  not 6.
\<close>

theorem remainingTokenValidity_not_boundary:
  "uint (remainingTokenValidity (example_token 30) (tm_sec_at 0)) = 31
   \<and> spec_seconds_to_boundary 30 0 = 30
   \<and> uint (remainingTokenValidity (example_token 30) (tm_sec_at 30)) = 1
   \<and> spec_seconds_to_boundary 30 30 = 30
   \<and> uint (remainingTokenValidity (example_token 120) (tm_sec_at 70)) = 111
   \<and> spec_seconds_to_boundary 120 70 = 50
   \<and> uint (remainingTokenValidity (example_token 7) (tm_sec_at 8)) = 7
   \<and> spec_seconds_to_boundary 7 8 = 6"
  by (simp add: remainingTokenValidity_def example_token_def tm_sec_at_def
      spec_seconds_to_boundary_def smod_int_alt_def)

section \<open>Encryption envelope: proofs\<close>

lemmas envelope_sizes = ANDOTP_IV_SIZE_def ANDOTP_TAG_SIZE_def

lemmas example_crypto =
  example_digest_def example_gcm_encrypt_def example_gcm_decrypt_def example_tag_def
  example_iv_def

text \<open>
  C1, as the code has it. For a password that is not empty the key is the digest of the
  password, and \<open>decrypt\<close> and \<open>encrypt\<close> hand exactly that digest to the cipher as
  the key. For the empty password \<open>sha256_password\<close> computes no digest and the key
  is the empty string.
\<close>

theorem key_is_digest_of_nonempty_password:
  "(password \<noteq> [] \<longrightarrow>
      sha256_password SHA256_digest password = SHA256_digest password
    \<and> decrypt SHA256_digest gcm_decrypt password buffer decrypted =
        (if length buffer \<le> 28 then (False, decrypted)
         else case gcm_decrypt (SHA256_digest password) (take 12 buffer) (drop 12 buffer) of
                None \<Rightarrow> (False, [])
              | Some out \<Rightarrow> (True, decrypted @ out))
    \<and> encrypt SHA256_digest gcm_encrypt iv password plain encrypted =
        (if plain = [] then (False, encrypted)
         else case gcm_encrypt (SHA256_digest password) iv plain of
                None \<Rightarrow> (False, [])
              | Some enc_buf \<Rightarrow> (True, iv @ enc_buf)))
   \<and> (password = [] \<longrightarrow> sha256_password SHA256_digest password = [])"
  by (simp add: sha256_password_def decrypt_def encrypt_def envelope_sizes Let_def)

text \<open>C1 at the password \<open>pw\<close> and at the empty password.\<close>

theorem key_is_digest_of_nonempty_password_witness:
  "''pw'' \<noteq> []
   \<and> sha256_password example_digest ''pw'' = example_digest ''pw''
   \<and> encrypt example_digest example_gcm_encrypt example_iv ''pw'' ''[]'' []
       = (True, example_iv @ ''[]'' @ example_tag)
   \<and> sha256_password example_digest [] = []"
  using key_is_digest_of_nonempty_password
      [where password = "''pw''" and SHA256_digest = example_digest
        and gcm_decrypt = example_gcm_decrypt and buffer = "[]" and decrypted = "[]"
        and gcm_encrypt = example_gcm_encrypt and iv = example_iv and plain = "''[]''"
        and encrypted = "[]"]
    key_is_digest_of_nonempty_password
      [where password = "[]" and SHA256_digest = example_digest
        and gcm_decrypt = example_gcm_decrypt and buffer = "[]" and decrypted = "[]"
        and gcm_encrypt = example_gcm_encrypt and iv = example_iv and plain = "''[]''"
        and encrypted = "[]"]
  by (simp add: example_digest_def example_gcm_encrypt_def)

text \<open>
  C1 as stated fails at the empty password: whatever the digest function, the key is
  the empty string, which has no bytes rather than 32.
\<close>

theorem empty_password_key_is_empty:
  "\<forall>SHA256_digest. sha256_password SHA256_digest [] = []
     \<and> length (sha256_password SHA256_digest []) = 0"
  by (simp add: sha256_password_def)

text \<open>
  C2: \<open>encrypt\<close> fails on an empty plaintext, and \<open>decrypt\<close> fails on every buffer
  shorter than 28 bytes, the IV size plus the tag size. Neither consults the cipher
  there: the result is the same for any two ciphers.
\<close>

theorem size_guards_fail_without_cipher:
  "ANDOTP_IV_SIZE + ANDOTP_TAG_SIZE = 28
   \<and> (buffer = [] \<longrightarrow>
        fst (encrypt SHA256_digest gcm_encrypt iv password buffer encrypted) = False
      \<and> encrypt SHA256_digest gcm_encrypt iv password buffer encrypted
          = encrypt SHA256_digest gcm_encrypt' iv password buffer encrypted)
   \<and> (length buffer < 28 \<longrightarrow>
        fst (decrypt SHA256_digest gcm_decrypt password buffer decrypted) = False
      \<and> decrypt SHA256_digest gcm_decrypt password buffer decrypted
          = decrypt SHA256_digest gcm_decrypt' password buffer decrypted)"
  by (simp add: decrypt_def encrypt_def envelope_sizes)

text \<open>C2 at the empty plaintext and at a 27-byte buffer.\<close>

theorem size_guards_fail_without_cipher_witness:
  "fst (encrypt example_digest example_gcm_encrypt example_iv ''pw'' [] []) = False
   \<and> length (example_iv @ replicate 15 (CHR ''x'')) < 28
   \<and> fst (decrypt example_digest example_gcm_decrypt ''pw''
            (example_iv @ replicate 15 (CHR ''x'')) []) = False"
  using size_guards_fail_without_cipher
      [where buffer = "[]" and SHA256_digest = example_digest
        and gcm_encrypt = example_gcm_encrypt and gcm_encrypt' = example_gcm_encrypt
        and gcm_decrypt = example_gcm_decrypt and gcm_decrypt' = example_gcm_decrypt
        and iv = example_iv and password = "''pw''" and encrypted = "[]" and decrypted = "[]"]
    size_guards_fail_without_cipher
      [where buffer = "example_iv @ replicate 15 (CHR ''x'')"
        and SHA256_digest = example_digest
        and gcm_encrypt = example_gcm_encrypt and gcm_encrypt' = example_gcm_encrypt
        and gcm_decrypt = example_gcm_decrypt and gcm_decrypt' = example_gcm_decrypt
        and iv = example_iv and password = "''pw''" and encrypted = "[]" and decrypted = "[]"]
  by (simp add: example_iv_def)

lemma failure_leaves_fresh_buffer_empty:
  "(decrypt SHA256_digest gcm_decrypt password buffer [] = (False, out) \<longrightarrow> out = [])
   \<and> (encrypt SHA256_digest gcm_encrypt iv password plain [] = (False, out') \<longrightarrow> out' = [])"
  by (auto simp add: decrypt_def encrypt_def envelope_sizes Let_def
      split: option.splits if_splits)

lemma filter_flags:
  "AuthenticatedDecryptionFilter MAC_AT_END gcm key iv enc_buf =
     map_option fst (gcm key iv enc_buf)"
  "AuthenticatedDecryptionFilter DEFAULT_FLAGS gcm key iv enc_buf =
     (case gcm key iv enc_buf of
        None \<Rightarrow> None
      | Some (out, verified) \<Rightarrow> if verified then Some out else None)"
  by (auto simp add: AuthenticatedDecryptionFilter_def MAC_AT_END_def DEFAULT_FLAGS_def
      THROW_EXCEPTION_def split: option.splits)

text \<open>
  C7 fails on the code at a tag mismatch. The claim counts a wrong password among the
  failures that must leave the output buffer empty. With the filter as \<open>decrypt\<close>
  constructs it (\<open>MAC_AT_END\<close> alone), a buffer longer than 28 bytes whose tag does not
  compare equal under the derived key is not a failure: \<open>decrypt\<close> returns true and
  the deciphered, unauthenticated bytes are in the output buffer. With the default
  flags the same input returns false and leaves the buffer empty, as the claim says.
\<close>

theorem tag_mismatch_returns_bytes:
  "28 < length buffer
   \<and> gcm (sha256_password SHA256_digest password) (take 12 buffer) (drop 12 buffer)
       = Some (out, False)
   \<longrightarrow>
     decrypt SHA256_digest (AuthenticatedDecryptionFilter MAC_AT_END gcm) password buffer []
       = (True, out)
   \<and> decrypt SHA256_digest (AuthenticatedDecryptionFilter DEFAULT_FLAGS gcm) password buffer []
       = (False, [])"
  by (simp add: decrypt_def envelope_sizes Let_def filter_flags)

text \<open>
  C7 at a buffer encrypted under the password \<open>pw\<close> and decrypted with the password
  \<open>wrong\<close>: the tag does not compare equal, and \<open>decrypt\<close> returns true with six bytes.
\<close>

theorem tag_mismatch_returns_bytes_witness:
  "encrypt example_keyed_digest example_keyed_encrypt example_iv ''pw'' ''secret'' []
     = (True, example_iv @ ''secret'' @ take 16 (example_keyed_digest ''pw''))
   \<and> 28 < length (example_iv @ ''secret'' @ take 16 (example_keyed_digest ''pw''))
   \<and> example_gcm (sha256_password example_keyed_digest ''wrong'') example_iv
        (''secret'' @ take 16 (example_keyed_digest ''pw'')) = Some (''secret'', False)
   \<and> decrypt example_keyed_digest (AuthenticatedDecryptionFilter MAC_AT_END example_gcm)
        ''wrong'' (example_iv @ ''secret'' @ take 16 (example_keyed_digest ''pw'')) []
       = (True, ''secret'')"
proof -
  let ?buffer = "example_iv @ ''secret'' @ take 16 (example_keyed_digest ''pw'')"
  have len: "28 < length ?buffer"
    by (simp add: example_iv_def example_keyed_digest_def)
  have split: "take 12 ?buffer = example_iv"
      "drop 12 ?buffer = ''secret'' @ take 16 (example_keyed_digest ''pw'')"
    by (simp_all add: example_iv_def)
  have mismatch: "example_gcm (sha256_password example_keyed_digest ''wrong'') example_iv
        (''secret'' @ take 16 (example_keyed_digest ''pw'')) = Some (''secret'', False)"
    by (simp add: example_gcm_def sha256_password_def example_keyed_digest_def)
  have enc: "encrypt example_keyed_digest example_keyed_encrypt example_iv ''pw'' ''secret'' []
     = (True, ?buffer)"
    by (simp add: encrypt_def sha256_password_def example_keyed_encrypt_def
        example_keyed_digest_def)
  show ?thesis
    using tag_mismatch_returns_bytes
        [where buffer = ?buffer and gcm = example_gcm
          and SHA256_digest = example_keyed_digest and password = "''wrong''"
          and out = "''secret''"]
      len mismatch enc
    by (simp only: split)
qed

text \<open>
  C9: let the digest of the password be 32 bytes long and let the cipher, under any
  32-byte key and the IV drawn, turn a plaintext into a ciphertext 16 bytes longer
  (the tag) that it decrypts to the plaintext again. Then for every password and
  plaintext that are not empty, and every 12-byte IV, \<open>encrypt\<close> succeeds, and
  \<open>decrypt\<close> of its output with the same password succeeds and returns the plaintext.
\<close>

theorem encrypt_decrypt_roundtrip:
  assumes digest: "length (SHA256_digest password) = 32"
    and cipher: "\<And>key pt. length key = 32 \<Longrightarrow>
        \<exists>ct. gcm_encrypt key iv pt = Some ct \<and> length ct = length pt + 16
           \<and> gcm_decrypt key iv ct = Some pt"
    and iv: "length iv = 12"
    and pw: "password \<noteq> []"
    and pt: "plaintext \<noteq> []"
  shows "\<exists>encrypted'.
      encrypt SHA256_digest gcm_encrypt iv password plaintext encrypted = (True, encrypted')
    \<and> take 12 encrypted' = iv
    \<and> length encrypted' = 12 + length plaintext + 16
    \<and> decrypt SHA256_digest gcm_decrypt password encrypted' [] = (True, plaintext)"
proof -
  let ?key = "SHA256_digest password"
  obtain ct where ct: "gcm_encrypt ?key iv plaintext = Some ct"
      "length ct = length plaintext + 16" "gcm_decrypt ?key iv ct = Some plaintext"
    using cipher [OF digest, of plaintext] by blast
  have key: "sha256_password SHA256_digest password = ?key"
    using pw by (simp add: sha256_password_def)
  have enc: "encrypt SHA256_digest gcm_encrypt iv password plaintext encrypted = (True, iv @ ct)"
    using pt ct(1) by (simp add: encrypt_def key)
  have len: "\<not> length (iv @ ct) \<le> ANDOTP_IV_SIZE + ANDOTP_TAG_SIZE"
    using iv ct(2) pt by (simp add: envelope_sizes)
  have dec: "decrypt SHA256_digest gcm_decrypt password (iv @ ct) [] = (True, plaintext)"
    unfolding decrypt_def using len iv ct(3) by (simp add: key envelope_sizes)
  have "take 12 (iv @ ct) = iv" "length (iv @ ct) = 12 + length plaintext + 16"
    using iv ct(2) by simp_all
  then show ?thesis using enc dec by blast
qed

text \<open>C9 at the password \<open>pw\<close> and the plaintext \<open>[]\<close>, with the example cipher.\<close>

theorem encrypt_decrypt_roundtrip_witness:
  "\<exists>encrypted'.
      encrypt example_digest example_gcm_encrypt example_iv ''pw'' ''[]'' [] = (True, encrypted')
    \<and> take 12 encrypted' = example_iv
    \<and> length encrypted' = 12 + length ''[]'' + 16
    \<and> decrypt example_digest example_gcm_decrypt ''pw'' encrypted' [] = (True, ''[]'')"
  by (rule encrypt_decrypt_roundtrip) (simp_all add: example_crypto)

section \<open>Import and export: proofs\<close>

subsection \<open>One element of the array\<close>

lemma has_andOTP_members_object:
  "has_andOTP_members (JObject ms) =
     Some (map_of ms ''type'' \<noteq> None \<and> map_of ms ''secret'' \<noteq> None
           \<and> map_of ms ''label'' \<noteq> None)"
  by (simp add: has_andOTP_members_def HasMember_def)

lemma has_andOTP_members_None: "has_andOTP_members elem = None \<longleftrightarrow> \<not> is_object elem"
  by (cases elem) (auto simp add: has_andOTP_members_def HasMember_def is_object_def)

lemma import_elem_Thrown: "import_elem elem = Thrown \<longleftrightarrow> \<not> is_object elem"
proof (cases "has_andOTP_members elem")
  case None
  then show ?thesis using has_andOTP_members_None [of elem] by (simp add: import_elem_def)
next
  case (Some b)
  then have "is_object elem" using has_andOTP_members_None [of elem] by auto
  then show ?thesis using Some
    by (simp add: import_elem_def split: bool.splits option.splits)
qed

lemma read_token_type:
  assumes "read_token elem = Some (Some token)"
  shows "\<exists>typeStr. get_string_at elem ''type'' = Some typeStr
           \<and> (typeStr = ''TOTP'' \<or> typeStr = ''HOTP'' \<or> typeStr = ''STEAM'')"
proof (cases "get_string_at elem ''type''")
  case None
  then show ?thesis using assms by (simp add: read_token_def)
next
  case (Some typeStr)
  then show ?thesis using assms
    by (cases "typeStr = ''TOTP''"; cases "typeStr = ''HOTP''"; cases "typeStr = ''STEAM''")
       (simp_all add: read_token_def)
qed

lemma import_elem_Pushed:
  assumes "import_elem elem = Pushed token"
  shows "spec_recognised elem"
proof -
  from assms have m: "has_andOTP_members elem = Some True"
    and r: "read_token elem = Some (Some token)"
    by (auto simp add: import_elem_def split: option.splits bool.splits)
  from m obtain ms where e: "elem = JObject ms"
    by (cases elem) (simp_all add: has_andOTP_members_def HasMember_def)
  from m e have "HasMember elem ''type'' = Some True \<and> HasMember elem ''secret'' = Some True
      \<and> HasMember elem ''label'' = Some True"
    by (simp add: has_andOTP_members_object HasMember_def)
  then show ?thesis using read_token_type [OF r]
    by (auto simp add: spec_recognised_def)
qed

lemma import_elem_unrecognised:
  assumes "is_object elem" "\<not> spec_recognised elem"
  shows "import_elem elem = Skipped"
  using assms import_elem_Thrown [of elem] import_elem_Pushed [of elem]
  by (cases "import_elem elem") auto

subsection \<open>The loop\<close>

lemma import_loop_objects:
  "list_all is_object elems \<Longrightarrow>
   import_loop elems target = (True, target @ concat (map pushed_by elems))"
proof (induction elems arbitrary: target)
  case Nil
  then show ?case by simp
next
  case (Cons elem rest)
  then have "import_elem elem \<noteq> Thrown" by (simp add: import_elem_Thrown)
  then show ?case using Cons
    by (cases "import_elem elem") (simp_all add: pushed_by_def)
qed

lemma import_loop_not_object:
  "\<not> is_object elem \<Longrightarrow> import_loop (elem # rest) target = (False, target)"
  using import_elem_Thrown [of elem] by simp

lemma importTokens_json_array:
  "importTokens_json (JArray elems) target = import_loop elems target"
  by (simp add: importTokens_json_def IsArray_def GetArray_def)

lemma example_elems:
  "import_elem totp_ok = Pushed totp_ok_token"
  "import_elem no_secret = Skipped"
  "import_elem numeric_type = Skipped"
  "import_elem (JInt 5) = Thrown"
  by (simp_all add: import_elem_def has_andOTP_members_def HasMember_def read_token_def
      get_string_at_def get_uint_at_def member_at_def GetString_def GetUint_def c_str_def
      totp_ok_def no_secret_def numeric_type_def totp_ok_token_def)

text \<open>
  What holds for an array whose elements are all objects: the import returns true and
  \<open>target\<close> gains, in order, what each element adds by itself; an element adds a token
  only if it is recognised, and an object that is not recognised adds nothing.
\<close>

lemma import_objects_elementwise:
  "(list_all is_object elems \<longrightarrow>
      importTokens_json (JArray elems) target
        = (True, target @ concat (map pushed_by elems)))
   \<and> (import_elem added = Pushed token \<longrightarrow>
        spec_recognised added \<and> pushed_by added = [token])
   \<and> (is_object other \<and> \<not> spec_recognised other \<longrightarrow>
        import_elem other = Skipped \<and> pushed_by other = [])"
  using import_loop_objects [of elems target] import_elem_Pushed [of added token]
    import_elem_unrecognised [of other]
  by (auto simp add: pushed_by_def importTokens_json_array)

text \<open>An object with every member the TOTP branch reads is added.\<close>

lemma import_elem_adds_TOTP:
  assumes "get_string_at elem ''type'' = Some ''TOTP''"
    and "get_string_at elem ''secret'' = Some sec"
    and "get_string_at elem ''label'' = Some lab"
    and "get_uint_at elem ''period'' = Some per"
    and "get_uint_at elem ''digits'' = Some dig"
    and "get_string_at elem ''algorithm'' = Some alg"
  shows "import_elem elem =
     Pushed (New_OTPToken TOTP
       [SetSecret sec, SetLabel lab, SetPeriod per, SetDigitLength (ucast dig),
        SetAlgorithm alg])"
proof -
  from assms(1) obtain ms where e: "elem = JObject ms"
    by (cases elem) (simp_all add: get_string_at_def member_at_def)
  have "map_of ms ''type'' \<noteq> None" "map_of ms ''secret'' \<noteq> None"
      "map_of ms ''label'' \<noteq> None"
    using assms(1,2,3) e
    by (auto simp add: get_string_at_def member_at_def bind_eq_Some_conv)
  then have "has_andOTP_members elem = Some True"
    using e by (simp add: has_andOTP_members_object)
  moreover have "read_token elem = Some (Some (New_OTPToken TOTP
       [SetSecret sec, SetLabel lab, SetPeriod per, SetDigitLength (ucast dig),
        SetAlgorithm alg]))"
    using assms by (simp add: read_token_def)
  ultimately show ?thesis by (simp add: import_elem_def)
qed

text \<open>
  C3 fails on the code at an array with an element that is not an object. The claim
  has every element that is not importable skipped by itself, the rest of the array
  still imported. The loop does so for an object without \<open>secret\<close> and for an object
  whose \<open>type\<close> is a number: the well-formed TOTP object beside it yields exactly one
  token. For the number 5 as an element, \<open>HasMember\<close> is evaluated outside the inner
  \<open>try\<close>: the import returns false, the well-formed TOTP object after it is never
  read, and only the tokens pushed before it are in \<open>target\<close>.
\<close>

theorem import_aborts_on_non_object:
  "importTokens_json (JArray [totp_ok, no_secret]) [] = (True, [totp_ok_token])
   \<and> importTokens_json (JArray [numeric_type, totp_ok]) [] = (True, [totp_ok_token])
   \<and> importTokens_json (JArray [JInt 5, totp_ok]) [] = (False, [])
   \<and> importTokens_json (JArray [totp_ok, JInt 5, totp_ok]) [] = (False, [totp_ok_token])"
  by (simp add: importTokens_json_array example_elems)

subsection \<open>Export\<close>

lemma c_str_idem: "c_str (c_str s) = c_str s"
  by (simp add: c_str_def)

lemma GetUint_period: "GetUint (JInt (uint (p :: 32 word))) = Some p"
proof -
  have "uint p < 2 ^ 32" using uint_lt2p [of p] by simp
  then show ?thesis by (simp add: GetUint_def)
qed

lemma GetUint_digits: "GetUint (JInt (uint (d :: 8 word))) = Some (ucast d)"
proof -
  have "uint d < 2 ^ 8" using uint_lt2p [of d] by simp
  then have "uint d < 2 ^ 32" by simp
  then show ?thesis by (simp add: GetUint_def)
qed

lemma ucast_digits: "(ucast (ucast (d :: 8 word) :: 32 word) :: 8 word) = d"
  by (rule bit_word_eqI) (auto simp add: bit_ucast_iff)

lemma export_value_Steam:
  "type token = Steam \<Longrightarrow> export_value token = Some (spec_steam_object token)"
  by (simp add: export_value_def spec_steam_object_def)

lemma export_value_other:
  "type token \<noteq> Steam \<Longrightarrow> export_value token =
     Some (JObject [(''secret'', JString (c_str (secret token))),
              (''label'', JString (c_str (label token))),
              (''period'', JInt (uint (period token))),
              (''digits'', JInt (uint (digitLength token))),
              (''type'', JString (if type token = HOTP then ''HOTP'' else ''TOTP'')),
              (''algorithm'', JString (c_str (algorithmName token))),
              (''thumbnail'', JString ''Default''),
              (''last_used'', JInt 0),
              (''tags'', JArray [])])"
  by (simp add: export_value_def)

lemma export_value_total: "\<exists>v. export_value token = Some v"
  by (cases "type token = Steam") (simp_all add: export_value_Steam export_value_other)

lemma export_loop_Cons:
  "export_loop (token # rest) = Some elems \<longleftrightarrow>
     (\<exists>v vs. export_value token = Some v \<and> export_loop rest = Some vs \<and> elems = v # vs)"
  by (auto simp add: bind_eq_Some_conv)

lemma export_loop_total:
  "\<exists>elems. export_loop tokens = Some elems \<and> length elems = length tokens
     \<and> (\<forall>i<length tokens. export_value (tokens ! i) = Some (elems ! i))"
proof (induction tokens)
  case Nil
  then show ?case by simp
next
  case (Cons token rest)
  then obtain vs where vs: "export_loop rest = Some vs" "length vs = length rest"
      "\<forall>i<length rest. export_value (rest ! i) = Some (vs ! i)" by blast
  obtain v where v: "export_value token = Some v" using export_value_total by blast
  have "\<forall>i<length (token # rest). export_value ((token # rest) ! i) = Some ((v # vs) ! i)"
    using v vs(3) by (auto simp add: nth_Cons split: nat.splits)
  then show ?case using v vs(1,2) by simp
qed

text \<open>
  C8: for every token list the export loop completes, with one object per token in
  order, and the object of every Steam token is the one with \<open>digits\<close> 5 and
  \<open>algorithm\<close> \<open>SHA1\<close>, whatever \<open>digitLength()\<close> and \<open>algorithmName()\<close> return.
\<close>

theorem steam_export_forced_fields:
  "\<exists>elems. export_loop tokens = Some elems \<and> length elems = length tokens
     \<and> (\<forall>i<length tokens. type (tokens ! i) = Steam \<longrightarrow>
           elems ! i = spec_steam_object (tokens ! i)
         \<and> member_at (elems ! i) ''digits'' = Some (JInt 5)
         \<and> member_at (elems ! i) ''algorithm'' = Some (JString ''SHA1''))"
proof -
  obtain elems where el: "export_loop tokens = Some elems" "length elems = length tokens"
      "\<forall>i<length tokens. export_value (tokens ! i) = Some (elems ! i)"
    using export_loop_total by blast
  have "elems ! i = spec_steam_object (tokens ! i)
         \<and> member_at (elems ! i) ''digits'' = Some (JInt 5)
         \<and> member_at (elems ! i) ''algorithm'' = Some (JString ''SHA1'')"
    if "i < length tokens" "type (tokens ! i) = Steam" for i
  proof -
    have "elems ! i = spec_steam_object (tokens ! i)"
      using el(3) that export_value_Steam [OF that(2)] by simp
    then show ?thesis by (simp add: spec_steam_object_def member_at_def)
  qed
  then show ?thesis using el(1,2) by blast
qed

text \<open>C8 at a Steam token that stores 8 digits and SHA512, exported after an HOTP token.\<close>

theorem steam_export_forced_fields_witness:
  "type ([example_hotp, example_steam] ! 1) = Steam
   \<and> digitLength example_steam = 8
   \<and> algorithmName example_steam = ''SHA512''
   \<and> (\<exists>elems. export_loop [example_hotp, example_steam] = Some elems
        \<and> member_at (elems ! 1) ''digits'' = Some (JInt 5)
        \<and> member_at (elems ! 1) ''algorithm'' = Some (JString ''SHA1''))"
proof -
  have st: "type ([example_hotp, example_steam] ! 1) = Steam"
    "digitLength example_steam = 8" "algorithmName example_steam = ''SHA512''"
    by (simp_all add: example_steam_def)
  obtain elems where el: "export_loop [example_hotp, example_steam] = Some elems"
    and steam: "\<forall>i<length [example_hotp, example_steam].
        type ([example_hotp, example_steam] ! i) = Steam \<longrightarrow>
           elems ! i = spec_steam_object ([example_hotp, example_steam] ! i)
         \<and> member_at (elems ! i) ''digits'' = Some (JInt 5)
         \<and> member_at (elems ! i) ''algorithm'' = Some (JString ''SHA1'')"
    using steam_export_forced_fields [of "[example_hotp, example_steam]"] by blast
  have "1 < length [example_hotp, example_steam]" by simp
  with steam st(1) have "member_at (elems ! 1) ''digits'' = Some (JInt 5)
      \<and> member_at (elems ! 1) ''algorithm'' = Some (JString ''SHA1'')"
    by blast
  with el st show ?thesis by blast
qed

subsection \<open>Export, then import\<close>

lemma import_exported_Steam:
  assumes "type token = Steam"
  shows "import_elem (spec_steam_object token) = Pushed (read_back token)"
  using assms
  by (simp add: import_elem_def has_andOTP_members_object spec_steam_object_def read_token_def
      get_string_at_def member_at_def GetString_def c_str_idem read_back_def)
     (simp add: c_str_def)

lemma import_exported_other:
  assumes "type token \<noteq> Steam" "export_value token = Some v"
  shows "import_elem v = (if type token = HOTP then Skipped else Pushed (read_back token))"
proof -
  have c: "c_str ''HOTP'' = ''HOTP''" "c_str ''TOTP'' = ''TOTP''"
    by (simp_all add: c_str_def)
  show ?thesis
    using assms export_value_other [OF assms(1)]
    by (auto simp add: import_elem_def has_andOTP_members_object read_token_def
        get_string_at_def get_uint_at_def member_at_def GetString_def c_str_idem read_back_def c
        GetUint_period GetUint_digits ucast_digits)
qed

lemma import_exported:
  assumes "export_value token = Some v"
  shows "import_elem v = (if type token = HOTP then Skipped else Pushed (read_back token))"
proof (cases "type token = Steam")
  case True
  then show ?thesis using assms import_exported_Steam [OF True]
    by (simp add: export_value_Steam)
next
  case False
  then show ?thesis using assms by (rule import_exported_other)
qed

lemma exported_no_counter:
  assumes "export_value token = Some v"
  shows "HasMember v ''counter'' = Some False"
proof (cases "type token = Steam")
  case True
  then show ?thesis using assms
    by (auto simp add: export_value_Steam spec_steam_object_def HasMember_def)
next
  case False
  then show ?thesis using assms export_value_other [OF False]
    by (auto simp add: HasMember_def)
qed

lemma import_export_loop:
  "export_loop tokens = Some elems \<Longrightarrow>
   import_loop elems target =
     (True, target @ map read_back (filter (\<lambda>t. type t \<noteq> HOTP) tokens))"
proof (induction tokens arbitrary: elems target)
  case Nil
  then show ?case by simp
next
  case (Cons token rest)
  from Cons.prems obtain v vs where v: "export_value token = Some v"
    and vs: "export_loop rest = Some vs" and e: "elems = v # vs"
    unfolding export_loop_Cons by blast
  show ?case using import_exported [OF v] Cons.IH [OF vs] e by simp
qed

lemma export_loop_no_counter:
  "export_loop tokens = Some elems \<Longrightarrow>
   \<forall>elem\<in>set elems. HasMember elem ''counter'' = Some False"
proof (induction tokens arbitrary: elems)
  case Nil
  then show ?case by simp
next
  case (Cons token rest)
  from Cons.prems obtain v vs where v: "export_value token = Some v"
    and vs: "export_loop rest = Some vs" and e: "elems = v # vs"
    unfolding export_loop_Cons by blast
  show ?case using exported_no_counter [OF v] Cons.IH [OF vs] e by simp
qed

lemma HOTP_needs_counter:
  assumes "get_string_at elem ''type'' = Some ''HOTP''"
    "HasMember elem ''counter'' = Some False"
  shows "import_elem elem = Skipped"
proof -
  from assms(2) obtain ms where e: "elem = JObject ms" and c: "map_of ms ''counter'' = None"
    by (cases elem) (auto simp add: HasMember_def)
  have "get_uint_at elem ''counter'' = None"
    using e c by (simp add: get_uint_at_def member_at_def)
  then have "read_token elem = None"
    using assms(1) by (simp add: read_token_def split: Option.bind_split)
  then show ?thesis using e
    by (simp add: import_elem_def has_andOTP_members_object split: bool.splits)
qed

lemma read_back_type: "new_type (read_back token) \<noteq> HOTP"
  by (simp add: read_back_def)

text \<open>
  C10: for every token list the exported array has no object with a \<open>counter\<close>
  member; an element whose type is \<open>HOTP\<close> and that has no \<open>counter\<close> member is
  skipped by the import; so importing the exported array succeeds and constructs, in
  order, one token for each token that is not HOTP and none for an HOTP token. No
  constructed token is of the HOTP variant.
\<close>

theorem hotp_lost_in_export_import:
  "\<exists>elems. export_loop tokens = Some elems
     \<and> (\<forall>elem\<in>set elems. HasMember elem ''counter'' = Some False)
     \<and> (\<forall>elem. get_string_at elem ''type'' = Some ''HOTP''
            \<and> HasMember elem ''counter'' = Some False \<longrightarrow> import_elem elem = Skipped)
     \<and> importTokens_json (JArray elems) target =
         (True, target @ map read_back (filter (\<lambda>t. type t \<noteq> HOTP) tokens))
     \<and> (\<forall>token\<in>set tokens. new_type (read_back token) \<noteq> HOTP)"
proof -
  obtain elems where el: "export_loop tokens = Some elems"
    using export_loop_total by blast
  show ?thesis
    using el export_loop_no_counter [OF el] import_export_loop [OF el, of target]
      HOTP_needs_counter read_back_type
    unfolding importTokens_json_array
    by blast
qed

text \<open>C10 at the list of an HOTP token, a Steam token and an Authy token.\<close>

theorem hotp_lost_in_export_import_witness:
  "type example_hotp = HOTP
   \<and> (\<exists>elems. export_loop [example_hotp, example_steam, example_authy] = Some elems
        \<and> importTokens_json (JArray elems) [] =
            (True,
             [New_OTPToken Steam [SetSecret ''STEAMSECRET'', SetLabel ''steam''],
              New_OTPToken TOTP
                [SetSecret ''AUTHYSECRET'', SetLabel ''authy'', SetPeriod 10,
                 SetDigitLength 7, SetAlgorithm ''SHA256'']]))"
proof -
  obtain elems where el: "export_loop [example_hotp, example_steam, example_authy] = Some elems"
    and imp: "importTokens_json (JArray elems) [] =
         (True, [] @ map read_back
            (filter (\<lambda>t. type t \<noteq> HOTP) [example_hotp, example_steam, example_authy]))"
    using hotp_lost_in_export_import [of "[example_hotp, example_steam, example_authy]" "[]"]
    by blast
  have "map read_back (filter (\<lambda>t. type t \<noteq> HOTP) [example_hotp, example_steam, example_authy])
      = [New_OTPToken Steam [SetSecret ''STEAMSECRET'', SetLabel ''steam''],
         New_OTPToken TOTP
           [SetSecret ''AUTHYSECRET'', SetLabel ''authy'', SetPeriod 10,
            SetDigitLength 7, SetAlgorithm ''SHA256'']]"
    by (simp add: read_back_def c_str_def example_hotp_def example_steam_def example_authy_def)
  moreover have "type example_hotp = HOTP" by (simp add: example_hotp_def)
  ultimately show ?thesis using el imp by auto
qed

end
